theory Spec2Isabelle
  imports Main "HOL-Library.Multiset"
begin

section \<open>The filter command: 1-based field access (cmd/filter.go)\<close>

text \<open>
  Go's \<^verbatim>\<open>int\<close> is a 64-bit two's complement integer on the platforms the launcher
  targets; \<open>wrap64\<close> is the wrap-around of its arithmetic, written out on \<open>int\<close>.
\<close>

definition wrap64 :: "int \<Rightarrow> int" where
  "wrap64 x = (x + 2 ^ 63) mod 2 ^ 64 - 2 ^ 63"

text \<open>
  A run-time panic of the Go program. Indexing a slice outside \<open>0 \<le> j < len\<close> panics
  with "index out of range [j] with length n"; storing into a nil map panics with
  "assignment to entry in nil map"; defining a flag whose name the flag set already has
  panics in the flag library with "flag redefined: name".
\<close>

datatype go_panic = IndexOutOfRange int nat | NilMapAssignment | FlagRedefined string

definition go_index :: "'a list \<Rightarrow> int \<Rightarrow> go_panic + 'a" where
  "go_index xs j =
     (if 0 \<le> j \<and> j < int (length xs) then Inr (xs ! nat j)
      else Inl (IndexOutOfRange j (length xs)))"

text \<open>
  \<^verbatim>\<open>
  func safeGet(tokens []string, idx int) string {
      if idx == 0 { return "" }
      if idx > len(tokens) { return "" }
      return tokens[idx-1]
  }
  \<close>
\<close>

definition safeGet :: "string list \<Rightarrow> int \<Rightarrow> go_panic + string" where
  "safeGet tokens idx =
     (if idx = 0 then Inr ''''
      else if idx > int (length tokens) then Inr ''''
      else go_index tokens (wrap64 (idx - 1)))"

section \<open>The navigation stack (package tui)\<close>

subsection \<open>Pages, events and deferred work\<close>

text \<open>
  Values of Go's \<^verbatim>\<open>any\<close> as they occur in manifests and bound parameters: nil, a
  string, a boolean, or a value of another dynamic type (a number, a list, an object),
  kept as its printed form.
\<close>

datatype any = ANil | AString string | ABool bool | AOther string

text \<open>
  Modelled from the spec: the types of package \<^verbatim>\<open>app\<close> (RootItem, Command,
  Extension) are declared outside the sources at hand. The fields are the ones
  \<^verbatim>\<open>NewRootList\<close> reads; a Go map is an association list with distinct keys, and
  looking up a missing key gives the zero value.
\<close>

record app_command =
  cmd_Title :: string
  cmd_Exec :: string

record root_item =
  Extension :: string
  Command :: string
  Title :: string
  With :: "(string \<times> any) list"

record app_extension =
  ext_Title :: string
  RootItems :: "root_item list"
  Commands :: "(string \<times> app_command) list"

definition zero_command :: app_command where
  "zero_command = \<lparr>cmd_Title = [], cmd_Exec = []\<rparr>"

definition zero_extension :: app_extension where
  "zero_extension = \<lparr>ext_Title = [], RootItems = [], Commands = []\<rparr>"

definition lookup_command :: "(string \<times> app_command) list \<Rightarrow> string \<Rightarrow> app_command" where
  "lookup_command cs k = (case map_of cs k of None \<Rightarrow> zero_command | Some c \<Rightarrow> c)"

definition lookup_extension :: "(string \<times> app_extension) list \<Rightarrow> string \<Rightarrow> app_extension" where
  "lookup_extension es k = (case map_of es k of None \<Rightarrow> zero_extension | Some e \<Rightarrow> e)"

text \<open>
  Modelled from the spec: the implementations of the \<^verbatim>\<open>Page\<close> interface (Detail,
  CommandRunner, List) are outside the sources at hand. A page owns its rendering state
  (\<open>body\<close>) and its current size; \<^verbatim>\<open>SetSize\<close> stores the size and touches nothing
  else. The body of a Detail page is its title and the content of its viewport; the body
  of a command runner is the arguments of \<^verbatim>\<open>NewCommandRunner\<close>; any other page is
  opaque.
\<close>

datatype page_body =
    Detail string string
  | CommandRunner string app_extension string app_command "(string \<times> any) list" "string list"
  | OtherPage string

datatype page = Page (body: page_body) (page_width: int) (page_height: int)

definition page_SetSize :: "int \<Rightarrow> int \<Rightarrow> page \<Rightarrow> page" where
  "page_SetSize w h p = Page (body p) w h"

definition NewDetail :: "string \<Rightarrow> page" where
  "NewDetail title = Page (Detail title []) 0 0"

definition SetContent :: "string \<Rightarrow> page \<Rightarrow> page" where
  "SetContent s p =
     (case body p of
        Detail title _ \<Rightarrow> Page (Detail title s) (page_width p) (page_height p)
      | _ \<Rightarrow> p)"

definition NewCommandRunner ::
  "string \<times> app_extension \<Rightarrow> string \<times> app_command \<Rightarrow> (string \<times> any) list \<Rightarrow> string list \<Rightarrow> page" where
  "NewCommandRunner ext command with args =
     Page (CommandRunner (fst ext) (snd ext) (fst command) (snd command) with args) 0 0"

datatype key_type = KeyEscape | KeyCtrlC | KeyOther string

text \<open>The events \<^verbatim>\<open>Model.Update\<close> tells apart; \<open>OtherMsg\<close> is any other event.\<close>

datatype msg =
    KeyMsg key_type
  | WindowSizeMsg int int
  | OpenUrlMsg string
  | CopyTextMsg string
  | PushPageMsg page
  | pushMsg page
  | popMsg
  | ErrorMsg string
  | OtherMsg string

text \<open>
  Deferred work (\<^verbatim>\<open>tea.Cmd\<close>): nil, \<^verbatim>\<open>tea.Quit\<close>, which ends the event loop, the
  work of \<^verbatim>\<open>NewErrorCmd\<close>, the init work of a page, or work a page's own update
  returned.
  Modelled from the spec: \<^verbatim>\<open>NewErrorCmd\<close> and the pages' \<^verbatim>\<open>Init\<close> are outside the
  sources at hand; \<open>NewErrorCmd e\<close> is the work that delivers the error event of \<open>e\<close>,
  \<open>InitCmd p\<close> the deferred init work of page \<open>p\<close>.
\<close>

datatype cmd = NilCmd | Quit | NewErrorCmd string | InitCmd page | PageCmd string

fun delivers :: "cmd \<Rightarrow> msg option" where
  "delivers (NewErrorCmd e) = Some (ErrorMsg e)"
| "delivers _ = None"

text \<open>
  What the model calls and does not define: the browser and clipboard capabilities
  (\<open>None\<close> is success, \<open>Some e\<close> the error \<open>e\<close>), and the \<^verbatim>\<open>Update\<close> and
  \<^verbatim>\<open>View\<close> methods of the pages.
\<close>

record env =
  OpenURL :: "string \<Rightarrow> string option"
  WriteAll :: "string \<Rightarrow> string option"
  page_Update :: "page \<Rightarrow> msg \<Rightarrow> page \<times> cmd"
  page_View :: "page \<Rightarrow> string"

subsection \<open>The model\<close>

record model =
  width :: int
  height :: int
  root :: page
  pages :: "page list"
  hidden :: bool
  exit :: bool

definition NewModel :: "page \<Rightarrow> model" where
  "NewModel r = \<lparr>width = 0, height = 0, root = r, pages = [], hidden = False, exit = False\<rparr>"

definition pageHeight :: "model \<Rightarrow> int" where
  "pageHeight m = height m"

definition SetSize :: "model \<Rightarrow> int \<Rightarrow> int \<Rightarrow> model" where
  "SetSize m w h =
     (let m1 = m\<lparr>width := w, height := h\<rparr>;
          m2 = m1\<lparr>root := page_SetSize w (pageHeight m1) (root m1)\<rparr>
      in m2\<lparr>pages := map (page_SetSize (width m2) (pageHeight m2)) (pages m2)\<rparr>)"

definition Push :: "model \<Rightarrow> page \<Rightarrow> model \<times> cmd" where
  "Push m p =
     (let p' = page_SetSize (width m) (pageHeight m) p
      in (m\<lparr>pages := pages m @ [p']\<rparr>, InitCmd p'))"

definition Pop :: "model \<Rightarrow> model" where
  "Pop m =
     (if length (pages m) > 0 then m\<lparr>pages := take (length (pages m) - 1) (pages m)\<rparr>
      else m)"

text \<open>The tail of \<^verbatim>\<open>Model.Update\<close>: the event goes to the current page.\<close>

definition update_current :: "env \<Rightarrow> model \<Rightarrow> msg \<Rightarrow> model \<times> cmd" where
  "update_current e m x =
     (if length (pages m) = 0 then
        (case page_Update e (root m) x of (p, c) \<Rightarrow> (m\<lparr>root := p\<rparr>, c))
      else
        (let currentPageIdx = length (pages m) - 1
         in case page_Update e (pages m ! currentPageIdx) x of
              (p, c) \<Rightarrow> (m\<lparr>pages := (pages m)[currentPageIdx := p]\<rparr>, c)))"

fun Update :: "env \<Rightarrow> model \<Rightarrow> msg \<Rightarrow> model \<times> cmd" where
  "Update e m (KeyMsg KeyEscape) = update_current e m (KeyMsg KeyEscape)"
| "Update e m (KeyMsg KeyCtrlC) = (m\<lparr>hidden := True, exit := True\<rparr>, Quit)"
| "Update e m (KeyMsg (KeyOther k)) = update_current e m (KeyMsg (KeyOther k))"
| "Update e m (WindowSizeMsg w h) = (SetSize m w h, NilCmd)"
| "Update e m (OpenUrlMsg url) =
     (case OpenURL e url of
        Some err \<Rightarrow> (m, NewErrorCmd err)
      | None \<Rightarrow> (m\<lparr>hidden := True\<rparr>, Quit))"
| "Update e m (CopyTextMsg t) =
     (case WriteAll e t of
        Some err \<Rightarrow> (m, NewErrorCmd (''failed to copy text to clipboard: '' @ err))
      | None \<Rightarrow> (m\<lparr>hidden := True\<rparr>, Quit))"
| "Update e m (PushPageMsg p) = Push m p"
| "Update e m (pushMsg p) = Push m p"
| "Update e m popMsg = (if length (pages m) = 0 then (m, Quit) else (Pop m, NilCmd))"
| "Update e m (ErrorMsg err) =
     (let detail = SetContent err (page_SetSize (width m) (pageHeight m) (NewDetail ''Error''))
      in (if length (pages m) = 0 then m\<lparr>root := detail\<rparr>
          else m\<lparr>pages := (pages m)[length (pages m) - 1 := detail]\<rparr>,
          InitCmd detail))"
| "Update e m (OtherMsg x) = update_current e m (OtherMsg x)"

definition View :: "env \<Rightarrow> model \<Rightarrow> string" where
  "View e m =
     (if hidden m then []
      else if length (pages m) > 0 then page_View e (pages m ! (length (pages m) - 1))
      else page_View e (root m))"

text \<open>
  The event loop hands the events to \<^verbatim>\<open>Update\<close> one at a time, each on the model
  the previous one left; \<open>updates\<close> gives the final model and the work returned on the way.
\<close>

fun updates :: "env \<Rightarrow> model \<Rightarrow> msg list \<Rightarrow> model \<times> cmd list" where
  "updates e m [] = (m, [])"
| "updates e m (x # xs) =
     (case Update e m x of (m', c) \<Rightarrow>
        (case updates e m' xs of (m'', cs) \<Rightarrow> (m'', c # cs)))"

subsection \<open>Reading the stack\<close>

text \<open>The active page: the top of the stack, the root when the stack is empty.\<close>

definition active_page :: "model \<Rightarrow> page" where
  "active_page m = (if pages m = [] then root m else last (pages m))"

fun pushed :: "msg \<Rightarrow> page option" where
  "pushed (PushPageMsg p) = Some p"
| "pushed (pushMsg p) = Some p"
| "pushed _ = None"

definition is_push_pop :: "msg \<Rightarrow> bool" where
  "is_push_pop x = (pushed x \<noteq> None \<or> x = popMsg)"

text \<open>
  The last pushed page not yet popped, read off the events alone, newest event first:
  \<open>k\<close> counts the pop events seen that have not met their push yet. A push met with
  \<open>k = 0\<close> is the answer; \<open>None\<close> says that every push has been popped.
\<close>

fun last_unpopped :: "msg list \<Rightarrow> nat \<Rightarrow> page option" where
  "last_unpopped [] k = None"
| "last_unpopped (x # xs) k =
     (case pushed x of
        Some p \<Rightarrow> (case k of 0 \<Rightarrow> Some p | Suc k' \<Rightarrow> last_unpopped xs k')
      | None \<Rightarrow> last_unpopped xs (if x = popMsg then Suc k else k))"

text \<open>
  The top of the stack \<open>st\<close> over the root \<open>r\<close> once \<open>k\<close> more pages are taken off.
\<close>

definition top_after :: "page \<Rightarrow> page list \<Rightarrow> nat \<Rightarrow> page" where
  "top_after r st k = (let st' = take (length st - k) st in if st' = [] then r else last st')"

subsection \<open>A sample environment and model\<close>

text \<open>
  A browser that opens one URL only, a clipboard that accepts one text only, pages that
  ignore their events and render as their name; a model with two pages stacked.
\<close>

definition demo_env :: env where
  "demo_env =
     \<lparr>OpenURL = (\<lambda>u. if u = ''https://example.org'' then None else Some ''no browser''),
      WriteAll = (\<lambda>t. if t = ''text'' then None else Some ''no clipboard''),
      page_Update = (\<lambda>p x. (p, NilCmd)),
      page_View = (\<lambda>p. case body p of Detail t c \<Rightarrow> c | CommandRunner n _ _ _ _ _ \<Rightarrow> n | OtherPage n \<Rightarrow> n)\<rparr>"

definition demo_page :: "string \<Rightarrow> page" where
  "demo_page n = Page (OtherPage n) 0 0"

definition demo_model :: model where
  "demo_model =
     \<lparr>width = 80, height = 24, root = demo_page ''root'',
      pages = [demo_page ''first'', demo_page ''second''], hidden = False, exit = False\<rparr>"

section \<open>The root list (NewRootList, package tui)\<close>

subsection \<open>The history-aware comparator\<close>

text \<open>
  The history (\<^verbatim>\<open>map[string]int64\<close>): item id to the Unix time of its last run.
\<close>

type_synonym history = "string \<rightharpoonup> int"

record root_item_with_id =
  RootItem :: root_item
  item_id :: string

text \<open>
  The action of a list item. \<^verbatim>\<open>Cmd\<close> is a closure in the source; the record keeps
  the variables it captured, the root item and its extension, and \<open>RunCommand_Cmd\<close>
  below is its body.
\<close>

record action =
  action_Title :: string
  Shortcut :: string
  Cmd :: "root_item_with_id \<times> app_extension"

record list_item =
  Id :: string
  item_Title :: string
  Subtitle :: string
  Accessories :: "string list"
  Actions :: "action list"

definition ID :: "list_item \<Rightarrow> string" where
  "ID i = Id i"

text \<open>
  \<^verbatim>\<open>
  list.filter.Less = func(i, j FilterItem) bool {
      iValue, ok := history[i.ID()]
      if !ok { iValue = 0 }
      jValue, ok := history[j.ID()]
      if !ok { jValue = 0 }
      return iValue > jValue
  }
  \<close>
\<close>

definition Less :: "history \<Rightarrow> list_item \<Rightarrow> list_item \<Rightarrow> bool" where
  "Less history i j =
     (let iValue = (case history (ID i) of Some v \<Rightarrow> v | None \<Rightarrow> 0);
          jValue = (case history (ID j) of Some v \<Rightarrow> v | None \<Rightarrow> 0)
      in iValue > jValue)"

text \<open>The last-run time the claim speaks of: 0 for an item that never ran.\<close>

definition timestamp :: "history \<Rightarrow> list_item \<Rightarrow> int" where
  "timestamp history i = (if ID i \<in> dom history then the (history (ID i)) else 0)"

text \<open>
  Modelled from the spec: the List/Filter engine that calls \<^verbatim>\<open>Less\<close> is outside the
  sources at hand. The spec asks for a stable sort by the installed comparator; this is
  the insertion sort that places an item after the items that come strictly before it.
\<close>

fun insert_by :: "('a \<Rightarrow> 'a \<Rightarrow> bool) \<Rightarrow> 'a \<Rightarrow> 'a list \<Rightarrow> 'a list" where
  "insert_by before x [] = [x]"
| "insert_by before x (y # ys) =
     (if before y x then y # insert_by before x ys else x # y # ys)"

definition stable_sort :: "('a \<Rightarrow> 'a \<Rightarrow> bool) \<Rightarrow> 'a list \<Rightarrow> 'a list" where
  "stable_sort before xs = foldr (insert_by before) xs []"

subsection \<open>The items and their run action\<close>

text \<open>
  The first loop of \<^verbatim>\<open>NewRootList\<close>: the root items of every extension, with the
  extension's name stored in the item and the id \<open>name:title\<close>. The extension map is an
  association list with distinct keys, in the order the \<^verbatim>\<open>range\<close> visits it.
\<close>

definition extension_rootItems :: "(string \<times> app_extension) list \<Rightarrow> root_item_with_id list" where
  "extension_rootItems extensionMap =
     concat (map (\<lambda>(extensionName, extension).
        map (\<lambda>rootItem.
          \<lparr>RootItem = rootItem\<lparr>Extension := extensionName\<rparr>,
           item_id = extensionName @ '':'' @ Title rootItem\<rparr>) (RootItems extension))
        extensionMap)"

text \<open>The second loop: the configured items whose extension is in the map.\<close>

definition additional_rootItems ::
  "(string \<times> app_extension) list \<Rightarrow> root_item list \<Rightarrow> root_item_with_id list" where
  "additional_rootItems extensionMap additionalItems =
     map (\<lambda>item. \<lparr>RootItem = item, item_id = ''config:'' @ Title item\<rparr>)
       (filter (\<lambda>item. map_of extensionMap (Extension item) \<noteq> None) additionalItems)"

text \<open>The third loop: one list item per root item, with the single action "Run Command".\<close>

definition listItems :: "(string \<times> app_extension) list \<Rightarrow> root_item list \<Rightarrow> list_item list" where
  "listItems extensionMap additionalItems =
     map (\<lambda>rootItem.
        let extension = lookup_extension extensionMap (Extension (RootItem rootItem))
        in \<lparr>Id = item_id rootItem,
            item_Title = Title (RootItem rootItem),
            Subtitle = ext_Title extension,
            Accessories = [Extension (RootItem rootItem)],
            Actions = [\<lparr>action_Title = ''Run Command'', Shortcut = ''enter'',
                        Cmd = (rootItem, extension)\<rparr>]\<rparr>)
       (extension_rootItems extensionMap @ additional_rootItems extensionMap additionalItems)"

text \<open>
  The part of the operating system the run action touches. \<open>state_dir\<close> is what
  \<^verbatim>\<open>os.Stat(stateDir)\<close> answers; \<open>mkdir_ok\<close> and \<open>write_ok\<close> say whether
  \<^verbatim>\<open>os.MkdirAll\<close> and \<^verbatim>\<open>os.WriteFile\<close> would succeed; \<open>history_file\<close> is the
  mapping the history file holds (\<open>None\<close>: no file); \<open>calls\<close> records the calls made, oldest
  first. A failed call leaves the directory and the file as they were.
\<close>

datatype stat_result = Exists | NotExist | StatError

datatype os_call = os_Stat string | os_MkdirAll string | os_WriteFile string history

record os_state =
  state_dir :: stat_result
  mkdir_ok :: bool
  write_ok :: bool
  history_file :: "history option"
  calls :: "os_call list"

text \<open>
  A value of type \<^verbatim>\<open>map[string]int64\<close> is nil (\<open>None\<close>) or a map. Reading a nil
  map answers as the empty map does; storing into it panics.
\<close>

type_synonym go_history = "history option"

definition map_read :: "go_history \<Rightarrow> history" where
  "map_read m = (case m of None \<Rightarrow> Map.empty | Some h \<Rightarrow> h)"

text \<open>
  What the bytes of the history file are to \<^verbatim>\<open>json.Unmarshal\<close> with a
  \<^verbatim>\<open>map[string]int64\<close> as target: the JSON value \<open>null\<close>; an object, given by the
  entries the decoder stores, in their order; or anything else (text that is not JSON,
  or a value that is neither null nor an object), for which the target is left as it
  is. For \<open>null\<close> the decoder sets the target to nil; for an object it keeps the map it
  is given (allocating one when it is nil) and stores the entries. The error it returns
  is dropped by \<^verbatim>\<open>loadHistory\<close>.
\<close>

datatype json_data = JSON_null | JSON_object "(string \<times> int) list" | JSON_other

fun json_Unmarshal :: "json_data \<Rightarrow> go_history \<Rightarrow> go_history" where
  "json_Unmarshal JSON_null m = None"
| "json_Unmarshal (JSON_object kvs) m = Some (fold (\<lambda>(k, v) h. h(k \<mapsto> v)) kvs (map_read m))"
| "json_Unmarshal JSON_other m = m"

text \<open>
  \<^verbatim>\<open>
  func loadHistory(historyPath string) map[string]int64 {
      history := make(map[string]int64)
      data, err := os.ReadFile(historyPath)
      if err != nil { return history }
      json.Unmarshal(data, &history)
      return history
  }
  \<close>
  \<open>read\<close> is the answer of \<^verbatim>\<open>os.ReadFile\<close>: \<open>None\<close> for an error.
\<close>

definition loadHistory :: "json_data option \<Rightarrow> go_history" where
  "loadHistory read =
     (let history = Some Map.empty
      in case read of None \<Rightarrow> history | Some data \<Rightarrow> json_Unmarshal data history)"

text \<open>
  The body of the closure \<^verbatim>\<open>Cmd\<close> of the action "Run Command", on the history map
  \<^verbatim>\<open>NewRootList\<close> got from \<^verbatim>\<open>loadHistory\<close>. \<open>now\<close> is \<^verbatim>\<open>time.Now().Unix()\<close>;
  \<^verbatim>\<open>json.Marshal\<close> of a \<^verbatim>\<open>map[string]int64\<close> cannot fail, and the bytes written
  are kept as the mapping they encode. The errors of \<^verbatim>\<open>MkdirAll\<close> and
  \<^verbatim>\<open>WriteFile\<close> are dropped by the source. The first statement,
  \<^verbatim>\<open>history[rootItem.id] = time.Now().Unix()\<close>, panics on a nil map, before any call
  to the operating system.
\<close>

definition RunCommand_Cmd ::
  "string \<Rightarrow> string \<Rightarrow> root_item_with_id \<times> app_extension \<Rightarrow> int \<Rightarrow> go_history \<times> os_state
     \<Rightarrow> go_panic + ((go_history \<times> os_state) \<times> msg)" where
  "RunCommand_Cmd stateDir historyPath captured now st =
     (case captured of (rootItem, extension) \<Rightarrow>
      case st of (history, os) \<Rightarrow>
        (case history of
           None \<Rightarrow> Inl NilMapAssignment
         | Some h \<Rightarrow>
             let history1 = h(item_id rootItem \<mapsto> now);
                 os1 = os\<lparr>calls := calls os @ [os_Stat stateDir]\<rparr>;
                 os2 = (if state_dir os1 = NotExist
                        then os1\<lparr>calls := calls os1 @ [os_MkdirAll stateDir],
                                 state_dir := (if mkdir_ok os1 then Exists else NotExist)\<rparr>
                        else os1);
                 data = history1;
                 os3 = os2\<lparr>calls := calls os2 @ [os_WriteFile historyPath data],
                           history_file := (if write_ok os2 then Some data else history_file os2)\<rparr>
             in Inr ((Some history1, os3),
                 PushPageMsg (NewCommandRunner
                   (Extension (RootItem rootItem), extension)
                   (Command (RootItem rootItem),
                    lookup_command (Commands extension) (Command (RootItem rootItem)))
                   (With (RootItem rootItem))
                   []))))"

subsection \<open>Sample items\<close>

definition demo_item :: "string \<Rightarrow> list_item" where
  "demo_item n = \<lparr>Id = n, item_Title = n, Subtitle = [], Accessories = [], Actions = []\<rparr>"

definition demo_history :: history where
  "demo_history = [''B'' \<mapsto> 10, ''C'' \<mapsto> 20]"

definition demo_extension :: app_extension where
  "demo_extension =
     \<lparr>ext_Title = ''GitHub'',
      RootItems = [\<lparr>Extension = [], Command = ''list-repos'', Title = ''Repositories'',
                    With = [(''owner'', AString ''me'')]\<rparr>],
      Commands = [(''list-repos'', \<lparr>cmd_Title = ''List'', cmd_Exec = ''./list.sh''\<rparr>)]\<rparr>"

definition demo_os :: os_state where
  "demo_os = \<lparr>state_dir = NotExist, mkdir_ok = False, write_ok = False,
              history_file = None, calls = []\<rparr>"

definition demo_root_item :: root_item_with_id where
  "demo_root_item =
     \<lparr>RootItem = \<lparr>Extension = ''github'', Command = ''list-repos'', Title = ''Repositories'',
                   With = [(''owner'', AString ''me'')]\<rparr>,
      item_id = ''github:Repositories''\<rparr>"

section \<open>Errors of package cmd\<close>

text \<open>
  An \<^verbatim>\<open>error\<close> value: \<^verbatim>\<open>ExitCodeError{ExitCode: n}\<close>, \<^verbatim>\<open>fmt.Errorf\<close> with the
  message written out, or \<^verbatim>\<open>fmt.Errorf("...: %w", err)\<close> around another error. The
  errors of the collaborators (network, file system, manifest parser) are values of the
  same type.
\<close>

datatype error = ExitCodeError int | Errorf string | Errorf_w string error

text \<open>The \<^verbatim>\<open>%v\<close> form of a value, as far as the messages below need it.\<close>

fun show_any :: "any \<Rightarrow> string" where
  "show_any ANil = ''<nil>''"
| "show_any (AString s) = s"
| "show_any (ABool b) = (if b then ''true'' else ''false'')"
| "show_any (AOther s) = s"

section \<open>The command surface of an extension (cmd/root.go)\<close>

text \<open>
  Modelled from the spec: the manifest types of package \<^verbatim>\<open>cmd\<close> and the two constants
  \<^verbatim>\<open>ParamTypeString\<close> and \<^verbatim>\<open>ParamTypeBoolean\<close> are declared outside the sources at
  hand; the declared type of a parameter is \<open>"string"\<close> or \<open>"boolean"\<close>.
\<close>

record param =
  param_Name :: string
  param_Type :: string
  param_Description :: string
  Default :: any
  Optional :: bool

record command =
  command_Name :: string
  command_Title :: string
  command_Description :: string
  command_Hidden :: bool
  Params :: "param list"

record manifest =
  manifest_Title :: string
  manifest_Description :: string
  manifest_Commands :: "command list"

record extension =
  Manifest :: manifest

definition ParamTypeString :: string where
  "ParamTypeString = ''string''"

definition ParamTypeBoolean :: string where
  "ParamTypeBoolean = ''boolean''"

definition coreGroupID :: string where
  "coreGroupID = ''core''"

definition extensionGroupID :: string where
  "extensionGroupID = ''extension''"

text \<open>
  What is kept of a \<^verbatim>\<open>cobra.Command\<close>: its texts, its flags with their defaults, the
  flags marked required, and the commands added to it.
\<close>

datatype flag = String_flag string string string | Bool_flag string bool string

fun flag_name :: "flag \<Rightarrow> string" where
  "flag_name (String_flag n d u) = n"
| "flag_name (Bool_flag n d u) = n"

datatype cobra_Command =
  Cobra_Command (Use: string) (Short: string) (Long: string) (Hidden: bool) (GroupID: string)
    (Flags: "flag list") (RequiredFlags: "string list") (Subcommands: "cobra_Command list")

text \<open>
  How a constructor ends: with a panic, with \<^verbatim>\<open>return nil, err\<close>, or with the
  command it built.
\<close>

datatype 'a result = Panic go_panic | Failed error | Ok 'a

text \<open>
  \<^verbatim>\<open>subcmd.Flags().String(...)\<close> and \<^verbatim>\<open>subcmd.Flags().Bool(...)\<close> define a flag in
  the flag set of the command. The flag library panics ("flag redefined") when the set
  already has a flag of that name; the set of a fresh command is empty.
\<close>

fun add_flag :: "flag \<Rightarrow> cobra_Command \<Rightarrow> go_panic + cobra_Command" where
  "add_flag f (Cobra_Command u s l h g fs rs cs) =
     (if flag_name f \<in> set (map flag_name fs) then Inl (FlagRedefined (flag_name f))
      else Inr (Cobra_Command u s l h g (fs @ [f]) rs cs))"

fun MarkFlagRequired :: "string \<Rightarrow> cobra_Command \<Rightarrow> cobra_Command" where
  "MarkFlagRequired n (Cobra_Command u s l h g fs rs cs) = Cobra_Command u s l h g fs (rs @ [n]) cs"

fun AddCommand :: "cobra_Command \<Rightarrow> cobra_Command \<Rightarrow> cobra_Command" where
  "AddCommand c (Cobra_Command u s l h g fs rs cs) = Cobra_Command u s l h g fs rs (cs @ [c])"

text \<open>
  The \<^verbatim>\<open>switch argument.Type\<close> of \<^verbatim>\<open>NewCustomCmd\<close> up to the definition of the
  flag: the flag of one parameter, or the error the function returns.
\<close>

definition param_flag :: "param \<Rightarrow> error + flag" where
  "param_flag argument =
     (if param_Type argument = ParamTypeString then
        (case Default argument of
           ANil \<Rightarrow> Inr (String_flag (param_Name argument) [] (param_Description argument))
         | AString d \<Rightarrow> Inr (String_flag (param_Name argument) d (param_Description argument))
         | _ \<Rightarrow> Inl (Errorf (''invalid default value for '' @ param_Name argument @ '': ''
                   @ show_any (Default argument))))
      else if param_Type argument = ParamTypeBoolean then
        (case Default argument of
           ANil \<Rightarrow> Inr (Bool_flag (param_Name argument) False (param_Description argument))
         | ABool d \<Rightarrow> Inr (Bool_flag (param_Name argument) d (param_Description argument))
         | _ \<Rightarrow> Inl (Errorf (''invalid default value for '' @ param_Name argument @ '': ''
                   @ show_any (Default argument))))
      else Inl (Errorf (''unsupported argument type: '' @ param_Type argument)))"

text \<open>
  The loop over \<^verbatim>\<open>command.Params\<close>: the type and the default are checked, the flag
  is defined, and it is marked required unless the parameter is optional.
\<close>

fun register_params :: "param list \<Rightarrow> cobra_Command \<Rightarrow> cobra_Command result" where
  "register_params [] subcmd = Ok subcmd"
| "register_params (argument # rest) subcmd =
     (case param_flag argument of
        Inl err \<Rightarrow> Failed err
      | Inr f \<Rightarrow>
          (case add_flag f subcmd of
             Inl p \<Rightarrow> Panic p
           | Inr subcmd' \<Rightarrow>
               register_params rest
                 (if \<not> Optional argument then MarkFlagRequired (param_Name argument) subcmd'
                  else subcmd')))"

text \<open>The loop over \<^verbatim>\<open>extension.Manifest.Commands\<close>.\<close>

fun add_commands :: "command list \<Rightarrow> cobra_Command \<Rightarrow> cobra_Command result" where
  "add_commands [] cmd = Ok cmd"
| "add_commands (command # rest) cmd =
     (case register_params (Params command)
             (Cobra_Command (command_Name command) (command_Title command)
                (command_Description command) (command_Hidden command) [] [] [] []) of
        Panic p \<Rightarrow> Panic p
      | Failed err \<Rightarrow> Failed err
      | Ok subcmd \<Rightarrow> add_commands rest (AddCommand subcmd cmd))"

definition NewCustomCmd :: "string \<Rightarrow> extension \<Rightarrow> cobra_Command result" where
  "NewCustomCmd name extension =
     add_commands (manifest_Commands (Manifest extension))
       (Cobra_Command name (manifest_Title (Manifest extension))
          (manifest_Description (Manifest extension)) False extensionGroupID [] [] [])"




definition demo_param :: "string \<Rightarrow> string \<Rightarrow> any \<Rightarrow> param" where
  "demo_param n t d =
     \<lparr>param_Name = n, param_Type = t, param_Description = [], Default = d, Optional = False\<rparr>"

definition demo_command :: "string \<Rightarrow> param list \<Rightarrow> command" where
  "demo_command n ps =
     \<lparr>command_Name = n, command_Title = n, command_Description = [], command_Hidden = False,
      Params = ps\<rparr>"

definition demo_cmd_extension :: "command list \<Rightarrow> extension" where
  "demo_cmd_extension cs =
     \<lparr>Manifest = \<lparr>manifest_Title = ''Demo'', manifest_Description = [], manifest_Commands = cs\<rparr>\<rparr>"

section \<open>The command resolver (NewRunCmd)\<close>

text \<open>\<^verbatim>\<open>types.Command\<close>, the argument of \<^verbatim>\<open>runCommand\<close>.\<close>

record types_Command =
  Name :: string
  Args :: "string list"
  Input :: string

text \<open>
  Modelled from the spec: the manifest command \<^verbatim>\<open>ParseCommand\<close> returns is declared
  outside the sources at hand. The resolver reads its entrypoint and its subcommands, a
  map from subcommand name to a value with an entrypoint; the map is an association list
  with distinct keys, in the order a \<^verbatim>\<open>range\<close> visits it.
\<close>

record sub_command =
  sub_Entrypoint :: string

record manifest_command =
  Entrypoint :: string
  SubCommands :: "(string \<times> sub_command) list"

text \<open>
  Standard input: a terminal, or a pipe with the answer of \<^verbatim>\<open>io.ReadAll\<close>.
\<close>

datatype stdin = Terminal | Piped "error + string"

text \<open>
  What \<^verbatim>\<open>RunE\<close> calls and does not define. \<open>url_Parse\<close> gives the scheme of the
  parsed URL; \<open>http_Get\<close> the status code, the status line and the body; \<open>os_Stat'\<close>
  whether the path is a directory. A call that can fail answers \<open>Inl err\<close>, or
  \<open>Some err\<close> when it has no other result.
\<close>

record run_env =
  Stdin :: stdin
  url_Parse :: "string \<Rightarrow> error + string"
  http_Get :: "string \<Rightarrow> error + (int \<times> string \<times> string)"
  os_MkdirTemp :: "error + string"
  os_OpenFile :: "string \<Rightarrow> error option"
  io_Copy :: "string \<Rightarrow> string \<Rightarrow> error option"
  f_Close :: "string \<Rightarrow> error option"
  os_Stat' :: "string \<Rightarrow> error + bool"
  findRoot :: "string \<Rightarrow> error + string"
  ParseCommand :: "string \<Rightarrow> error + manifest_command"
  manifestName :: string
  filepath_Base :: "string \<Rightarrow> string"
  filepath_Dir :: "string \<Rightarrow> string"
  filepath_Join :: "string \<Rightarrow> string \<Rightarrow> string"

text \<open>
  How \<^verbatim>\<open>RunE\<close> ends: \<^verbatim>\<open>return err\<close>, or \<^verbatim>\<open>return runCommand(c)\<close>.
\<close>

datatype outcome = Return error | runCommand types_Command

definition PrintErrln :: "string \<Rightarrow> string" where
  "PrintErrln s = s @ [CHR 0x0A]"

text \<open>The input: empty on a terminal, all of standard input otherwise.\<close>

definition read_input :: "run_env \<Rightarrow> error + string" where
  "read_input env =
     (case Stdin env of
        Terminal \<Rightarrow> Inr []
      | Piped (Inl err) \<Rightarrow> Inl err
      | Piped (Inr bs) \<Rightarrow> Inr bs)"

text \<open>The body of the first \<^verbatim>\<open>if\<close>: the origin is an HTTPS URL.\<close>

definition run_remote :: "run_env \<Rightarrow> string list \<Rightarrow> string \<Rightarrow> outcome" where
  "run_remote env args input =
     (case http_Get env (args ! 0) of
        Inl err \<Rightarrow> Return (Errorf_w ''could not fetch script: '' err)
      | Inr (StatusCode, Status, Body) \<Rightarrow>
          if StatusCode \<noteq> 200 then Return (Errorf (''could not fetch script: '' @ Status))
          else
            (case os_MkdirTemp env of
               Inl err \<Rightarrow> Return err
             | Inr tmpDir \<Rightarrow>
                 let scriptPath = filepath_Join env tmpDir ''sunbeam-command'' in
                 (case os_OpenFile env scriptPath of
                    Some err \<Rightarrow> Return err
                  | None \<Rightarrow>
                      (case io_Copy env scriptPath Body of
                         Some err \<Rightarrow> Return err
                       | None \<Rightarrow>
                           (case f_Close env scriptPath of
                              Some err \<Rightarrow> Return err
                            | None \<Rightarrow>
                                runCommand \<lparr>Name = scriptPath, Args = drop 1 args,
                                            Input = input\<rparr>)))))"

text \<open>
  The last loop, \<^verbatim>\<open>for name, c := range command.SubCommands\<close>, and the error after it.
\<close>

fun run_subcommand ::
  "run_env \<Rightarrow> string \<Rightarrow> (string \<times> sub_command) list \<Rightarrow> string \<Rightarrow> string list \<Rightarrow> string \<Rightarrow> outcome" where
  "run_subcommand env scriptPath [] subcommand args input =
     Return (Errorf (''subcommand not found: '' @ subcommand))"
| "run_subcommand env scriptPath ((name, c) # rest) subcommand args input =
     (if subcommand \<noteq> name then run_subcommand env scriptPath rest subcommand args input
      else runCommand
        \<lparr>Name = filepath_Join env (filepath_Dir env scriptPath) (sub_Entrypoint c),
         Args = drop 2 args, Input = input\<rparr>)"

text \<open>
  From \<^verbatim>\<open>if len(args) < 2\<close> on: the manifest has no entrypoint. The first component
  is what was printed to standard error.
\<close>

definition dispatch ::
  "run_env \<Rightarrow> string \<Rightarrow> manifest_command \<Rightarrow> string list \<Rightarrow> string \<Rightarrow> string list \<times> outcome" where
  "dispatch env scriptPath command args input =
     (if length args < 2 then
        ([PrintErrln ''No subcommand provided'', PrintErrln ''Subcommands:'']
           @ map (\<lambda>(name, c). ''  - '' @ name @ [CHR 0x0A]) (SubCommands command),
         Return (ExitCodeError 1))
      else
        ([], run_subcommand env scriptPath (SubCommands command) (args ! 1) args input))"

text \<open>From \<^verbatim>\<open>if filepath.Base(scriptPath) != manifestName\<close> on.\<close>

definition run_path ::
  "run_env \<Rightarrow> string \<Rightarrow> string list \<Rightarrow> string \<Rightarrow> string list \<times> outcome" where
  "run_path env scriptPath args input =
     (if filepath_Base env scriptPath \<noteq> manifestName env then
        ([], runCommand \<lparr>Name = scriptPath, Args = drop 1 args, Input = input\<rparr>)
      else
        (case ParseCommand env (filepath_Dir env scriptPath) of
           Inl err \<Rightarrow> ([], Return (Errorf_w ''could not parse command: '' err))
         | Inr command \<Rightarrow>
             if Entrypoint command \<noteq> [] then
               ([], runCommand
                  \<lparr>Name = filepath_Join env (filepath_Dir env scriptPath) (Entrypoint command),
                   Args = drop 1 args, Input = input\<rparr>)
             else dispatch env scriptPath command args input))"

text \<open>
  From \<^verbatim>\<open>info, err := os.Stat(scriptPath)\<close> to the end of \<^verbatim>\<open>if info.IsDir()\<close>:
  the path of a directory becomes what \<^verbatim>\<open>findRoot\<close> answers for it.
\<close>

definition resolve_scriptPath :: "run_env \<Rightarrow> string \<Rightarrow> error + string" where
  "resolve_scriptPath env scriptPath =
     (case os_Stat' env scriptPath of
        Inl err \<Rightarrow> Inl err
      | Inr IsDir \<Rightarrow> if IsDir then findRoot env scriptPath else Inr scriptPath)"

text \<open>
  \<^verbatim>\<open>RunE\<close> of the run command. \<^verbatim>\<open>cobra.MinimumNArgs(1)\<close> rejects an empty argument
  list before \<^verbatim>\<open>RunE\<close> is called.
\<close>

definition RunE :: "run_env \<Rightarrow> string list \<Rightarrow> string list \<times> outcome" where
  "RunE env args =
     (if length args < 1 then
        ([], Return (Errorf ''requires at least 1 arg(s), only received 0''))
      else
        (case read_input env of
           Inl err \<Rightarrow> ([], Return err)
         | Inr input \<Rightarrow>
             if url_Parse env (args ! 0) = Inr ''https'' then ([], run_remote env args input)
             else
               (case resolve_scriptPath env (args ! 0) of
                  Inl err \<Rightarrow> ([], Return err)
                | Inr scriptPath \<Rightarrow> run_path env scriptPath args input)))"

text \<open>
  A sample environment: input \<open>in\<close> on a pipe, a server that answers every request with
  a script, the extension directory \<open>/ext\<close> with its manifest, whose command is \<open>c\<close>.
\<close>

definition demo_run_env :: "manifest_command \<Rightarrow> run_env" where
  "demo_run_env c =
     \<lparr>Stdin = Piped (Inr ''in''),
      url_Parse = (\<lambda>u. if take 8 u = ''https://'' then Inr ''https'' else Inr []),
      http_Get = (\<lambda>u. Inr (200, ''200 OK'', ''#!/bin/sh'')),
      os_MkdirTemp = Inr ''/tmp/sunbeam1'',
      os_OpenFile = (\<lambda>p. None),
      io_Copy = (\<lambda>p b. None),
      f_Close = (\<lambda>p. None),
      os_Stat' = (\<lambda>p. if p = ''/ext'' then Inr True
                        else if p = ''/ext/sunbeam.json'' \<or> p = ''/ext/tool.sh'' then Inr False
                        else Inl (Errorf ''no such file or directory'')),
      findRoot = (\<lambda>p. if p = ''/ext'' then Inr ''/ext/sunbeam.json''
                       else Inl (Errorf ''no manifest'')),
      ParseCommand = (\<lambda>d. Inr c),
      manifestName = ''sunbeam.json'',
      filepath_Base = (\<lambda>p. drop 5 p),
      filepath_Dir = (\<lambda>p. take 4 p),
      filepath_Join = (\<lambda>a b. a @ ''/'' @ b)\<rparr>"

definition demo_subs :: "(string \<times> sub_command) list" where
  "demo_subs = [(''list'', \<lparr>sub_Entrypoint = ''list.sh''\<rparr>),
                (''show'', \<lparr>sub_Entrypoint = ''show.sh''\<rparr>)]"

section \<open>Properties of the filter command\<close>

lemma wrap64_id: "- (2 ^ 63) \<le> x \<Longrightarrow> x < 2 ^ 63 \<Longrightarrow> wrap64 x = x"
  by (simp add: wrap64_def)

lemma safeGet_zero: "safeGet ts 0 = Inr ''''"
  by (simp add: safeGet_def)

lemma safeGet_beyond: "int (length ts) < i \<Longrightarrow> safeGet ts i = Inr ''''"
  by (simp add: safeGet_def)

lemma safeGet_in_range:
  assumes "1 \<le> i" and "i \<le> int (length ts)" and "int (length ts) < 2 ^ 63"
  shows "safeGet ts i = Inr (ts ! (nat i - 1))"
proof -
  have "wrap64 (i - 1) = i - 1"
    using assms by (intro wrap64_id) auto
  moreover have "nat (i - 1) = nat i - 1"
    by simp
  ultimately show ?thesis
    using assms by (simp add: safeGet_def go_index_def)
qed

lemma safeGet_negative:
  assumes "i < 0" and "- (2 ^ 63) < i"
  shows "safeGet ts i = Inl (IndexOutOfRange (i - 1) (length ts))"
proof -
  have "wrap64 (i - 1) = i - 1"
    using assms by (intro wrap64_id) auto
  then show ?thesis
    using assms by (simp add: safeGet_def go_index_def)
qed

text \<open>
  C10. \<open>safeGet\<close> is to return the empty string for an index outside \<open>1..len(tokens)\<close>
  and never to read out of bounds, for every integer index. Its guards exclude only
  \<open>idx = 0\<close> and \<open>idx > len(tokens)\<close>: at the token list \<open>["a"]\<close> and the index
  \<open>-1\<close> the function reaches \<open>tokens[idx-1]\<close> with the index \<open>-2\<close>, and the
  access panics. (For \<open>0\<close>, for an index beyond the length and for an index in range
  the lemmas above give the result.)
\<close>

theorem safeGet_negative_index_panics:
  "safeGet [''a''] (- 1) = Inl (IndexOutOfRange (- 2) 1)"
  by (simp add: safeGet_def go_index_def wrap64_def)

section \<open>Properties of the navigation stack\<close>

lemma Update_push_pop_fields:
  assumes "is_push_pop x"
  shows "width (fst (Update e m x)) = width m \<and> height (fst (Update e m x)) = height m
       \<and> root (fst (Update e m x)) = root m \<and> hidden (fst (Update e m x)) = hidden m"
  using assms by (cases x) (auto simp: is_push_pop_def Push_def Pop_def Let_def)

lemma Update_push_pop_pages:
  assumes "is_push_pop x"
  shows "pages (fst (Update e m x)) =
     (case pushed x of Some p \<Rightarrow> pages m @ [page_SetSize (width m) (pageHeight m) p]
      | None \<Rightarrow> butlast (pages m))"
  using assms by (cases x) (auto simp: is_push_pop_def Push_def Pop_def Let_def butlast_conv_take)

lemma updates_Cons_fst:
  "fst (updates e m (x # xs)) = fst (updates e (fst (Update e m x)) xs)"
  by (simp split: prod.splits)

lemma updates_snoc:
  "fst (updates e m (xs @ [x])) = fst (Update e (fst (updates e m xs)) x)"
proof (induction xs arbitrary: m)
  case Nil
  show ?case by (simp split: prod.splits)
next
  case (Cons y ys)
  show ?case
    using Cons.IH[of "fst (Update e m y)"]
    by (simp only: append_Cons updates_Cons_fst)
qed

lemma updates_push_pop_fields:
  assumes "\<forall>x\<in>set es. is_push_pop x"
  shows "width (fst (updates e m es)) = width m \<and> height (fst (updates e m es)) = height m
       \<and> root (fst (updates e m es)) = root m \<and> hidden (fst (updates e m es)) = hidden m"
  using assms
proof (induction es rule: rev_induct)
  case Nil
  then show ?case by simp
next
  case (snoc x xs)
  then show ?case by (simp add: updates_snoc Update_push_pop_fields)
qed

lemma top_after_snoc_0: "top_after r (st @ [p]) 0 = p"
  by (simp add: top_after_def)

lemma top_after_snoc_Suc: "top_after r (st @ [p]) (Suc k) = top_after r st k"
  by (simp add: top_after_def)

lemma top_after_butlast: "top_after r (butlast st) k = top_after r st (Suc k)"
proof (cases st rule: rev_cases)
  case Nil
  then show ?thesis by (simp add: top_after_def)
next
  case (snoc ys y)
  then show ?thesis by (simp add: top_after_def)
qed

lemma unpopped_general:
  assumes "\<forall>x\<in>set es. is_push_pop x" and "pages m = []"
  shows "top_after (root m) (pages (fst (updates e m es))) k =
     (case last_unpopped (rev es) k of None \<Rightarrow> root m
      | Some p \<Rightarrow> page_SetSize (width m) (pageHeight m) p)"
  using assms(1)
proof (induction es arbitrary: k rule: rev_induct)
  case Nil
  then show ?case using assms(2) by (simp add: top_after_def)
next
  case (snoc x xs)
  let ?m = "fst (updates e m xs)"
  have pp: "is_push_pop x" and all: "\<forall>x\<in>set xs. is_push_pop x"
    using snoc.prems by auto
  have fields: "width ?m = width m" "pageHeight ?m = pageHeight m"
    using updates_push_pop_fields[OF all, of e m] by (simp_all add: pageHeight_def)
  show ?case
  proof (cases "pushed x")
    case None
    then have "x = popMsg" using pp by (simp add: is_push_pop_def)
    then show ?thesis
      using snoc.IH[OF all, of "Suc k"] None pp
      by (simp add: updates_snoc Update_push_pop_pages top_after_butlast del: Update.simps)
  next
    case (Some p)
    show ?thesis
    proof (cases k)
      case 0
      then show ?thesis
        using Some pp fields
        by (simp add: updates_snoc Update_push_pop_pages top_after_snoc_0 del: Update.simps)
    next
      case (Suc k')
      then show ?thesis
        using Some pp fields snoc.IH[OF all, of k']
        by (simp add: updates_snoc Update_push_pop_pages top_after_snoc_Suc del: Update.simps)
    qed
  qed
qed

lemma active_page_top_after: "active_page m = top_after (root m) (pages m) 0"
  by (simp add: active_page_def top_after_def)

lemma View_active: "View e m = (if hidden m then [] else page_View e (active_page m))"
  by (simp add: View_def active_page_def last_conv_nth)

text \<open>
  C1. After any sequence of push-page and pop events on a model whose stack is empty,
  the active page, which is the page \<open>View\<close> renders, is the last pushed page not yet
  popped, at the size the model gave it when it was pushed, or the root when every push
  has been popped; and a pop event on any model with an empty stack returns \<open>Quit\<close>
  and the model as it was.
\<close>

theorem push_pop_active_page:
  assumes "\<forall>x\<in>set es. is_push_pop x" and "pages m = []"
  shows "active_page (fst (updates e m es)) =
           (case last_unpopped (rev es) 0 of None \<Rightarrow> root m
            | Some p \<Rightarrow> page_SetSize (width m) (pageHeight m) p)
       \<and> View e (fst (updates e m es)) =
           (if hidden m then [] else page_View e (active_page (fst (updates e m es))))
       \<and> (\<forall>m'. pages m' = [] \<longrightarrow> Update e m' popMsg = (m', Quit))"
proof -
  have "hidden (fst (updates e m es)) = hidden m"
    using updates_push_pop_fields[OF assms(1), of e m] by simp
  then show ?thesis
    using unpopped_general[OF assms, of e 0] assms(2)
    by (simp add: active_page_top_after[of "fst (updates e m es)"] View_active
        updates_push_pop_fields[OF assms(1)])
qed

text \<open>Two pushes and a pop on a fresh model: the first pushed page is active.\<close>

theorem push_pop_active_page_witness:
  "active_page (fst (updates demo_env (NewModel (demo_page ''root''))
      [PushPageMsg (demo_page ''a''), pushMsg (demo_page ''b''), popMsg])) = demo_page ''a''
   \<and> View demo_env (fst (updates demo_env (NewModel (demo_page ''root''))
      [PushPageMsg (demo_page ''a''), pushMsg (demo_page ''b''), popMsg])) = ''a''
   \<and> Update demo_env (NewModel (demo_page ''root'')) popMsg = (NewModel (demo_page ''root''), Quit)"
  using push_pop_active_page [of "[PushPageMsg (demo_page ''a''), pushMsg (demo_page ''b''), popMsg]"
      "NewModel (demo_page ''root'')" demo_env]
  by (simp add: is_push_pop_def NewModel_def demo_page_def page_SetSize_def pageHeight_def
      demo_env_def)

lemma SetSize_fields:
  "width (SetSize m w h) = w" "height (SetSize m w h) = h"
  "root (SetSize m w h) = page_SetSize w h (root m)"
  "pages (SetSize m w h) = map (page_SetSize w h) (pages m)"
  "hidden (SetSize m w h) = hidden m" "exit (SetSize m w h) = exit m"
  by (simp_all add: SetSize_def Let_def pageHeight_def)

lemma page_SetSize_size:
  "page_width (page_SetSize w h p) = w" "page_height (page_SetSize w h p) = h"
  "body (page_SetSize w h p) = body p"
  by (simp_all add: page_SetSize_def)

lemma active_page_in_pages: "active_page m \<in> set (root m # pages m)"
  by (simp add: active_page_def)

lemma Pop_pages_subset: "set (pages (Pop m)) \<subseteq> set (pages m)"
  by (auto simp: Pop_def dest: in_set_takeD)

lemma Pop_root: "root (Pop m) = root m"
  by (simp add: Pop_def)

text \<open>
  C9. A resize event stores the new width and height and calls \<open>SetSize\<close> on the root
  and on each of the \<open>N\<close> stacked pages, so that all \<open>N + 1\<close> pages have the size
  \<open>(w, h)\<close>; the page a pop event then makes active has that size already.
\<close>

theorem resize_reaches_every_page:
  "Update e m (WindowSizeMsg w h) = (SetSize m w h, NilCmd)
   \<and> width (SetSize m w h) = w \<and> height (SetSize m w h) = h
   \<and> root (SetSize m w h) = page_SetSize w h (root m)
   \<and> pages (SetSize m w h) = map (page_SetSize w h) (pages m)
   \<and> length (root (SetSize m w h) # pages (SetSize m w h)) = length (pages m) + 1
   \<and> (\<forall>p \<in> set (root (SetSize m w h) # pages (SetSize m w h)).
         page_width p = w \<and> page_height p = h)
   \<and> page_width (active_page (fst (Update e (SetSize m w h) popMsg))) = w
   \<and> page_height (active_page (fst (Update e (SetSize m w h) popMsg))) = h"
proof -
  let ?m = "SetSize m w h"
  have sized: "\<forall>p \<in> set (root ?m # pages ?m). page_width p = w \<and> page_height p = h"
    by (auto simp: SetSize_fields page_SetSize_size)
  let ?m' = "fst (Update e ?m popMsg)"
  have "set (root ?m' # pages ?m') \<subseteq> set (root ?m # pages ?m)"
    using Pop_pages_subset[of ?m] by (auto simp: Pop_root)
  then have "active_page ?m' \<in> set (root ?m # pages ?m)"
    using active_page_in_pages[of ?m'] by blast
  then have "page_width (active_page ?m') = w \<and> page_height (active_page ?m') = h"
    using sized by blast
  then show ?thesis
    using sized by (simp add: SetSize_fields)
qed

text \<open>A resize with two pages stacked, and the page a pop then reveals.\<close>

theorem resize_reaches_every_page_witness:
  "pages (fst (Update demo_env demo_model (WindowSizeMsg 100 40))) =
      [Page (OtherPage ''first'') 100 40, Page (OtherPage ''second'') 100 40]
   \<and> root (fst (Update demo_env demo_model (WindowSizeMsg 100 40))) = Page (OtherPage ''root'') 100 40
   \<and> active_page (fst (Update demo_env (SetSize demo_model 100 40) popMsg)) =
      Page (OtherPage ''first'') 100 40"
  using resize_reaches_every_page [of demo_env demo_model 100 40]
  by (simp add: demo_model_def demo_page_def page_SetSize_def Pop_def active_page_def)

text \<open>
  C4. An error event puts a Detail page titled "Error" with the error text in place of
  the active page (the stack top, or the root when the stack is empty). The depth of the
  stack and the other pages stay as they are, the work returned is the init work of the
  new page and never \<open>Quit\<close>, and \<open>hidden\<close> is not touched.
\<close>

theorem error_replaces_active_page:
  assumes "Update e m (ErrorMsg err) = (m', c)"
  shows "active_page m' = Page (Detail ''Error'' err) (width m) (pageHeight m)
       \<and> length (pages m') = length (pages m)
       \<and> (if pages m = [] then pages m' = []
          else root m' = root m \<and> butlast (pages m') = butlast (pages m))
       \<and> c = InitCmd (active_page m') \<and> c \<noteq> Quit
       \<and> hidden m' = hidden m \<and> exit m' = exit m
       \<and> width m' = width m \<and> height m' = height m"
proof (cases "pages m" rule: rev_cases)
  case Nil
  then show ?thesis
    using assms
    by (auto simp: active_page_def Let_def NewDetail_def SetContent_def page_SetSize_def)
next
  case (snoc ps p)
  then show ?thesis
    using assms
    by (auto simp: active_page_def Let_def NewDetail_def SetContent_def page_SetSize_def)
qed

text \<open>An error event with two pages stacked replaces the second one.\<close>

theorem error_replaces_active_page_witness:
  "Update demo_env demo_model (ErrorMsg ''boom'') =
     (demo_model\<lparr>pages := [demo_page ''first'', Page (Detail ''Error'' ''boom'') 80 24]\<rparr>,
      InitCmd (Page (Detail ''Error'' ''boom'') 80 24))"
  using error_replaces_active_page [of demo_env demo_model "''boom''"
      "fst (Update demo_env demo_model (ErrorMsg ''boom''))"
      "snd (Update demo_env demo_model (ErrorMsg ''boom''))"]
  by (simp add: demo_model_def demo_page_def Let_def NewDetail_def SetContent_def
      page_SetSize_def pageHeight_def)

text \<open>
  C5. An open-url or copy-text event whose capability call succeeds sets \<open>hidden\<close> and
  returns \<open>Quit\<close>, and \<open>View\<close> is empty from then on. When the call fails, the
  model is returned as it was (so \<open>hidden\<close> keeps its value) with the work of
  \<open>NewErrorCmd\<close>, which delivers the error event and is not \<open>Quit\<close>.
\<close>

theorem open_url_copy_text:
  "(OpenURL e url = None \<longrightarrow>
      Update e m (OpenUrlMsg url) = (m\<lparr>hidden := True\<rparr>, Quit)
    \<and> View e (fst (Update e m (OpenUrlMsg url))) = [])
   \<and> (\<forall>err. OpenURL e url = Some err \<longrightarrow>
      Update e m (OpenUrlMsg url) = (m, NewErrorCmd err)
    \<and> delivers (snd (Update e m (OpenUrlMsg url))) = Some (ErrorMsg err)
    \<and> snd (Update e m (OpenUrlMsg url)) \<noteq> Quit
    \<and> hidden (fst (Update e m (OpenUrlMsg url))) = hidden m)
   \<and> (WriteAll e t = None \<longrightarrow>
      Update e m (CopyTextMsg t) = (m\<lparr>hidden := True\<rparr>, Quit)
    \<and> View e (fst (Update e m (CopyTextMsg t))) = [])
   \<and> (\<forall>err. WriteAll e t = Some err \<longrightarrow>
      Update e m (CopyTextMsg t) = (m, NewErrorCmd (''failed to copy text to clipboard: '' @ err))
    \<and> delivers (snd (Update e m (CopyTextMsg t))) =
        Some (ErrorMsg (''failed to copy text to clipboard: '' @ err))
    \<and> snd (Update e m (CopyTextMsg t)) \<noteq> Quit
    \<and> hidden (fst (Update e m (CopyTextMsg t))) = hidden m)"
  by (simp add: View_def)

text \<open>Both events, with a capability that succeeds and one that fails.\<close>

theorem open_url_copy_text_witness:
  "Update demo_env demo_model (OpenUrlMsg ''https://example.org'') = (demo_model\<lparr>hidden := True\<rparr>, Quit)
   \<and> View demo_env (fst (Update demo_env demo_model (OpenUrlMsg ''https://example.org''))) = []
   \<and> Update demo_env demo_model (OpenUrlMsg ''gopher://x'') = (demo_model, NewErrorCmd ''no browser'')
   \<and> Update demo_env demo_model (CopyTextMsg ''text'') = (demo_model\<lparr>hidden := True\<rparr>, Quit)
   \<and> Update demo_env demo_model (CopyTextMsg ''other'') =
       (demo_model, NewErrorCmd ''failed to copy text to clipboard: no clipboard'')
   \<and> hidden (fst (Update demo_env demo_model (CopyTextMsg ''other''))) = False"
  using open_url_copy_text [of demo_env "''https://example.org''" demo_model "''text''"]
    open_url_copy_text [of demo_env "''gopher://x''" demo_model "''other''"]
  by (simp add: demo_env_def demo_model_def)

section \<open>Properties of the root list\<close>

lemma Less_timestamp: "Less h i j \<longleftrightarrow> timestamp h i > timestamp h j"
  by (auto simp: Less_def timestamp_def Let_def split: option.splits)

lemma set_insert_by: "set (insert_by before x ys) = insert x (set ys)"
  by (induction ys) auto

lemma mset_insert_by: "mset (insert_by before x ys) = add_mset x (mset ys)"
  by (induction ys) auto

lemma mset_stable_sort: "mset (stable_sort before xs) = mset xs"
  by (induction xs) (simp_all add: stable_sort_def mset_insert_by)

lemma sorted_insert_by:
  assumes "sorted_wrt (\<lambda>a b. timestamp h a \<ge> timestamp h b) ys"
  shows "sorted_wrt (\<lambda>a b. timestamp h a \<ge> timestamp h b) (insert_by (Less h) x ys)"
  using assms
  by (induction ys) (auto simp: Less_timestamp set_insert_by)

lemma sorted_stable_sort:
  "sorted_wrt (\<lambda>a b. timestamp h a \<ge> timestamp h b) (stable_sort (Less h) xs)"
proof (induction xs)
  case Nil
  show ?case by (simp add: stable_sort_def)
next
  case (Cons x xs)
  then show ?case
    using sorted_insert_by[of h "stable_sort (Less h) xs" x]
    by (simp add: stable_sort_def)
qed

lemma filter_insert_by:
  "filter (\<lambda>y. timestamp h y = t) (insert_by (Less h) x ys) =
     (if timestamp h x = t then x # filter (\<lambda>y. timestamp h y = t) ys
      else filter (\<lambda>y. timestamp h y = t) ys)"
  by (induction ys) (auto simp: Less_timestamp)

lemma filter_stable_sort:
  "filter (\<lambda>y. timestamp h y = t) (stable_sort (Less h) xs) = filter (\<lambda>y. timestamp h y = t) xs"
proof (induction xs)
  case Nil
  show ?case by (simp add: stable_sort_def)
next
  case (Cons x xs)
  have "stable_sort (Less h) (x # xs) = insert_by (Less h) x (stable_sort (Less h) xs)"
    by (simp add: stable_sort_def)
  then show ?case
    using Cons.IH by (simp add: filter_insert_by)
qed

text \<open>
  C7. The comparator of the root list holds exactly when the first item's last-run time
  is greater than the second's, an item absent from the history counting as time 0.
  Sorting with it gives the items by descending last-run time, keeps every item, and is
  stable: the items of any one time, the never-run items among them, stay in their
  original order.
\<close>

theorem history_comparator_stable:
  "(Less h i j \<longleftrightarrow> timestamp h i > timestamp h j)
   \<and> (ID i \<notin> dom h \<longrightarrow> timestamp h i = 0)
   \<and> sorted_wrt (\<lambda>a b. timestamp h a \<ge> timestamp h b) (stable_sort (Less h) xs)
   \<and> mset (stable_sort (Less h) xs) = mset xs
   \<and> (\<forall>t. filter (\<lambda>y. timestamp h y = t) (stable_sort (Less h) xs) =
            filter (\<lambda>y. timestamp h y = t) xs)"
  using Less_timestamp[of h i j] sorted_stable_sort[of h xs] filter_stable_sort[of h _ xs]
  by (simp add: mset_stable_sort timestamp_def)

text \<open>
  A never run, B run at 10, C run at 20 sort as C, B, A; the never-run D and E keep
  their order.
\<close>

theorem history_comparator_stable_witness:
  "stable_sort (Less demo_history) [demo_item ''A'', demo_item ''B'', demo_item ''C''] =
     [demo_item ''C'', demo_item ''B'', demo_item ''A'']
   \<and> stable_sort (Less demo_history) [demo_item ''D'', demo_item ''E''] =
     [demo_item ''D'', demo_item ''E'']
   \<and> timestamp demo_history (demo_item ''A'') = 0
   \<and> filter (\<lambda>y. timestamp demo_history y = 0)
        (stable_sort (Less demo_history) [demo_item ''D'', demo_item ''B'', demo_item ''E'']) =
      [demo_item ''D'', demo_item ''E'']"
  using history_comparator_stable [of demo_history "demo_item ''A''" "demo_item ''B''"
      "[demo_item ''D'', demo_item ''B'', demo_item ''E'']"]
  by (simp add: stable_sort_def Less_def ID_def demo_item_def demo_history_def timestamp_def)

lemma listItems_action:
  assumes "it \<in> set (listItems extensionMap additionalItems)"
  shows "\<exists>rootItem. Id it = item_id rootItem
          \<and> Actions it = [\<lparr>action_Title = ''Run Command'', Shortcut = ''enter'',
               Cmd = (rootItem, lookup_extension extensionMap (Extension (RootItem rootItem)))\<rparr>]"
  using assms by (auto simp: listItems_def Let_def)

text \<open>
  On a history map that is not nil the run action does its four steps: it sets the
  item's entry to the current time, asks for the state directory and creates it when it
  does not exist, writes the whole updated history to the history file, and returns the
  push-page event with the command runner of the item's extension, command and bound
  parameters, whether or not the directory could be created and the file written.
\<close>

lemma RunCommand_Cmd_on_map:
  "\<exists>os'. RunCommand_Cmd stateDir historyPath (rootItem, extension) now (Some h, os) =
       Inr ((Some (h(item_id rootItem \<mapsto> now)), os'),
            PushPageMsg (NewCommandRunner
              (Extension (RootItem rootItem), extension)
              (Command (RootItem rootItem),
               lookup_command (Commands extension) (Command (RootItem rootItem)))
              (With (RootItem rootItem)) []))
     \<and> calls os' = calls os @ [os_Stat stateDir]
          @ (if state_dir os = NotExist then [os_MkdirAll stateDir] else [])
          @ [os_WriteFile historyPath (h(item_id rootItem \<mapsto> now))]
     \<and> (if state_dir os = NotExist then state_dir os' = (if mkdir_ok os then Exists else NotExist)
        else state_dir os' = state_dir os)
     \<and> history_file os' =
          (if write_ok os then Some (h(item_id rootItem \<mapsto> now)) else history_file os)"
  by (simp add: RunCommand_Cmd_def Let_def)

lemma demo_listItems:
  "listItems [(''github'', demo_extension)] [] =
    [\<lparr>Id = ''github:Repositories'', item_Title = ''Repositories'', Subtitle = ''GitHub'',
      Accessories = [''github''],
      Actions = [\<lparr>action_Title = ''Run Command'', Shortcut = ''enter'',
                  Cmd = (demo_root_item, demo_extension)\<rparr>]\<rparr>]"
  by (simp add: listItems_def extension_rootItems_def additional_rootItems_def demo_extension_def
      demo_root_item_def lookup_extension_def Let_def)

lemma demo_run_action:
  "RunCommand_Cmd ''/home/u/.local/state/sunbeam'' ''/home/u/.local/state/sunbeam/history.json''
      (demo_root_item, demo_extension) 1700000000 (Some demo_history, demo_os) =
    Inr ((Some (demo_history(''github:Repositories'' \<mapsto> 1700000000)),
      demo_os\<lparr>calls := [os_Stat ''/home/u/.local/state/sunbeam'',
                         os_MkdirAll ''/home/u/.local/state/sunbeam'',
                         os_WriteFile ''/home/u/.local/state/sunbeam/history.json''
                           (demo_history(''github:Repositories'' \<mapsto> 1700000000))]\<rparr>),
     PushPageMsg (Page (CommandRunner ''github'' demo_extension ''list-repos''
        \<lparr>cmd_Title = ''List'', cmd_Exec = ''./list.sh''\<rparr> [(''owner'', AString ''me'')] []) 0 0))"
  by (simp add: RunCommand_Cmd_def Let_def demo_os_def demo_root_item_def NewCommandRunner_def
      lookup_command_def demo_extension_def)

text \<open>
  \<^verbatim>\<open>loadHistory\<close> answers a map for a missing or unreadable file, for an object and
  for bytes the decoder rejects; it answers nil exactly for a file that holds \<open>null\<close>.
\<close>

lemma loadHistory_nil_iff: "loadHistory read = None \<longleftrightarrow> read = Some JSON_null"
proof (cases read)
  case None
  then show ?thesis by (simp add: loadHistory_def)
next
  case (Some data)
  then show ?thesis by (cases data) (simp_all add: loadHistory_def)
qed

lemma RunCommand_Cmd_panics_iff:
  "(\<exists>p. RunCommand_Cmd stateDir historyPath captured now (history, os) = Inl p)
     \<longleftrightarrow> history = None"
  by (cases captured; cases history) (simp_all add: RunCommand_Cmd_def Let_def)

text \<open>
  C8. The run action of a root-list item is to set the item's history entry, create the
  state directory when it is missing, write the history file and return the push-page
  event, whatever fails on the way. With a history file that holds the JSON value
  \<open>null\<close>, \<^verbatim>\<open>loadHistory\<close> answers a nil map, and on it the run action panics in
  its first statement: no call to the operating system is made and no push-page event is
  returned.
\<close>

theorem run_action_nil_history_panics:
  "loadHistory (Some JSON_null) = None
   \<and> RunCommand_Cmd ''/home/u/.local/state/sunbeam'' ''/home/u/.local/state/sunbeam/history.json''
        (demo_root_item, demo_extension) 1700000000 (loadHistory (Some JSON_null), demo_os) =
      Inl NilMapAssignment"
  by (simp add: loadHistory_def RunCommand_Cmd_def)

section \<open>Properties of the command surface\<close>














lemma good_params_construct:
  "NewCustomCmd ''demo''
      (demo_cmd_extension [demo_command ''ok'' [demo_param ''q'' ''string'' (AString ''x'')]]) =
   Ok (Cobra_Command ''demo'' ''Demo'' [] False ''extension'' [] []
         [Cobra_Command ''ok'' ''ok'' [] False [] [String_flag ''q'' ''x'' []] [''q''] []])"
  by (simp add: NewCustomCmd_def demo_cmd_extension_def demo_command_def demo_param_def
      param_flag_def ParamTypeString_def ParamTypeBoolean_def extensionGroupID_def)

section \<open>Properties of the command resolver\<close>

lemma RunE_local:
  assumes "read_input env = Inr input" and "url_Parse env origin \<noteq> Inr ''https''"
    and "resolve_scriptPath env origin = Inr sp"
  shows "RunE env (origin # rest) = run_path env sp (origin # rest) input"
  using assms by (simp add: RunE_def)

text \<open>
  C2. The resolver classifies the origin in a fixed order and the first match decides:
  an HTTPS URL is fetched and run from a temporary file, whatever the file system says
  about the origin; otherwise a directory is replaced by the manifest \<open>findRoot\<close>
  answers; a path whose base name is not the manifest name is run as it is; a manifest
  with a non-empty entrypoint runs the entrypoint, joined to the manifest's directory,
  with the trailing arguments and the input, whatever its subcommands map holds; only a
  manifest with an empty entrypoint reaches the dispatcher.
\<close>

theorem resolver_precedence:
  assumes "read_input env = Inr input"
  shows "(url_Parse env origin = Inr ''https'' \<longrightarrow>
            RunE env (origin # rest) = ([], run_remote env (origin # rest) input))
       \<and> (url_Parse env origin = Inr ''https'' \<and> http_Get env origin = Inr (200, status, script)
            \<and> os_MkdirTemp env = Inr tmpDir
            \<and> os_OpenFile env (filepath_Join env tmpDir ''sunbeam-command'') = None
            \<and> io_Copy env (filepath_Join env tmpDir ''sunbeam-command'') script = None
            \<and> f_Close env (filepath_Join env tmpDir ''sunbeam-command'') = None \<longrightarrow>
            RunE env (origin # rest) =
              ([], runCommand \<lparr>Name = filepath_Join env tmpDir ''sunbeam-command'',
                               Args = rest, Input = input\<rparr>))
       \<and> (os_Stat' env origin = Inr True \<longrightarrow>
            resolve_scriptPath env origin = findRoot env origin)
       \<and> (os_Stat' env origin = Inr False \<longrightarrow> resolve_scriptPath env origin = Inr origin)
       \<and> (url_Parse env origin \<noteq> Inr ''https'' \<and> resolve_scriptPath env origin = Inr sp
            \<and> filepath_Base env sp \<noteq> manifestName env \<longrightarrow>
            RunE env (origin # rest) =
              ([], runCommand \<lparr>Name = sp, Args = rest, Input = input\<rparr>))
       \<and> (url_Parse env origin \<noteq> Inr ''https'' \<and> resolve_scriptPath env origin = Inr sp
            \<and> filepath_Base env sp = manifestName env
            \<and> ParseCommand env (filepath_Dir env sp) = Inr command
            \<and> Entrypoint command \<noteq> [] \<longrightarrow>
            RunE env (origin # rest) =
              ([], runCommand
                 \<lparr>Name = filepath_Join env (filepath_Dir env sp) (Entrypoint command),
                  Args = rest, Input = input\<rparr>))
       \<and> (url_Parse env origin \<noteq> Inr ''https'' \<and> resolve_scriptPath env origin = Inr sp
            \<and> filepath_Base env sp = manifestName env
            \<and> ParseCommand env (filepath_Dir env sp) = Inr command
            \<and> Entrypoint command = [] \<longrightarrow>
            RunE env (origin # rest) = dispatch env sp command (origin # rest) input)"
proof -
  have remote: "RunE env (origin # rest) = ([], run_remote env (origin # rest) input)"
    if "url_Parse env origin = Inr ''https''"
    using that assms by (simp add: RunE_def)
  have fetched: "run_remote env (origin # rest) input =
      runCommand \<lparr>Name = filepath_Join env tmpDir ''sunbeam-command'', Args = rest, Input = input\<rparr>"
    if "http_Get env origin = Inr (200, status, script)" "os_MkdirTemp env = Inr tmpDir"
       "os_OpenFile env (filepath_Join env tmpDir ''sunbeam-command'') = None"
       "io_Copy env (filepath_Join env tmpDir ''sunbeam-command'') script = None"
       "f_Close env (filepath_Join env tmpDir ''sunbeam-command'') = None"
    using that by (simp add: run_remote_def Let_def)
  have dir: "resolve_scriptPath env origin = findRoot env origin" if "os_Stat' env origin = Inr True"
    using that by (simp add: resolve_scriptPath_def)
  have plainfile: "resolve_scriptPath env origin = Inr origin" if "os_Stat' env origin = Inr False"
    using that by (simp add: resolve_scriptPath_def)
  have plain: "RunE env (origin # rest) = ([], runCommand \<lparr>Name = sp, Args = rest, Input = input\<rparr>)"
    if "url_Parse env origin \<noteq> Inr ''https''" "resolve_scriptPath env origin = Inr sp"
       "filepath_Base env sp \<noteq> manifestName env"
    using that RunE_local[OF assms that(1,2), of rest] by (simp add: run_path_def)
  have entry: "RunE env (origin # rest) =
      ([], runCommand \<lparr>Name = filepath_Join env (filepath_Dir env sp) (Entrypoint command),
                       Args = rest, Input = input\<rparr>)"
    if "url_Parse env origin \<noteq> Inr ''https''" "resolve_scriptPath env origin = Inr sp"
       "filepath_Base env sp = manifestName env"
       "ParseCommand env (filepath_Dir env sp) = Inr command" "Entrypoint command \<noteq> []"
    using that RunE_local[OF assms that(1,2), of rest] by (simp add: run_path_def)
  have disp: "RunE env (origin # rest) = dispatch env sp command (origin # rest) input"
    if "url_Parse env origin \<noteq> Inr ''https''" "resolve_scriptPath env origin = Inr sp"
       "filepath_Base env sp = manifestName env"
       "ParseCommand env (filepath_Dir env sp) = Inr command" "Entrypoint command = []"
    using that RunE_local[OF assms that(1,2), of rest] by (simp add: run_path_def)
  show ?thesis
    using remote fetched dir plainfile plain entry disp by metis
qed

lemma demo_read_input: "read_input (demo_run_env c) = Inr ''in''"
  by (simp add: read_input_def demo_run_env_def)

lemma demo_remote:
  "url_Parse (demo_run_env c) ''https://example.org/s'' = Inr ''https''"
  "http_Get (demo_run_env c) ''https://example.org/s'' = Inr (200, ''200 OK'', ''#!/bin/sh'')"
  "os_MkdirTemp (demo_run_env c) = Inr ''/tmp/sunbeam1''"
  "os_OpenFile (demo_run_env c) p = None"
  "io_Copy (demo_run_env c) p b = None"
  "f_Close (demo_run_env c) p = None"
  "filepath_Join (demo_run_env c) ''/tmp/sunbeam1'' ''sunbeam-command'' =
     ''/tmp/sunbeam1/sunbeam-command''"
  by (simp_all add: demo_run_env_def)

lemma demo_dispatcher:
  "url_Parse (demo_run_env c) ''/ext'' \<noteq> Inr ''https''"
  "resolve_scriptPath (demo_run_env c) ''/ext'' = Inr ''/ext/sunbeam.json''"
  "filepath_Base (demo_run_env c) ''/ext/sunbeam.json'' = manifestName (demo_run_env c)"
  "ParseCommand (demo_run_env c) (filepath_Dir (demo_run_env c) ''/ext/sunbeam.json'') = Inr c"
  by (simp_all add: demo_run_env_def resolve_scriptPath_def)

lemma demo_plain:
  "url_Parse (demo_run_env c) ''/ext/tool.sh'' \<noteq> Inr ''https''"
  "resolve_scriptPath (demo_run_env c) ''/ext/tool.sh'' = Inr ''/ext/tool.sh''"
  "filepath_Base (demo_run_env c) ''/ext/tool.sh'' \<noteq> manifestName (demo_run_env c)"
  by (simp_all add: demo_run_env_def resolve_scriptPath_def)

lemma demo_entrypoint:
  "filepath_Join (demo_run_env c) (filepath_Dir (demo_run_env c) ''/ext/sunbeam.json'') e =
     ''/ext/'' @ e"
  by (simp add: demo_run_env_def)

text \<open>
  A manifest with both an entrypoint and subcommands runs the entrypoint, and "list"
  stays an argument; a plain executable; a remote script.
\<close>

theorem resolver_precedence_witness:
  "RunE (demo_run_env \<lparr>Entrypoint = ''main.sh'', SubCommands = demo_subs\<rparr>) [''/ext'', ''list'', ''x''] =
     ([], runCommand \<lparr>Name = ''/ext/main.sh'', Args = [''list'', ''x''], Input = ''in''\<rparr>)
   \<and> RunE (demo_run_env \<lparr>Entrypoint = ''main.sh'', SubCommands = demo_subs\<rparr>) [''/ext/tool.sh'', ''x''] =
     ([], runCommand \<lparr>Name = ''/ext/tool.sh'', Args = [''x''], Input = ''in''\<rparr>)
   \<and> RunE (demo_run_env \<lparr>Entrypoint = ''main.sh'', SubCommands = demo_subs\<rparr>) [''https://example.org/s'', ''x''] =
     ([], runCommand \<lparr>Name = ''/tmp/sunbeam1/sunbeam-command'', Args = [''x''], Input = ''in''\<rparr>)"
proof -
  let ?c = "\<lparr>Entrypoint = ''main.sh'', SubCommands = demo_subs\<rparr>"
  let ?env = "demo_run_env ?c"
  have 1: "RunE ?env [''/ext'', ''list'', ''x''] =
     ([], runCommand \<lparr>Name = ''/ext/main.sh'', Args = [''list'', ''x''], Input = ''in''\<rparr>)"
    using resolver_precedence [OF demo_read_input, of ?c "''/ext''" "[''list'', ''x'']" _ _ _
        "''/ext/sunbeam.json''" ?c] demo_dispatcher[of ?c] demo_entrypoint[of ?c]
    by simp
  have 2: "RunE ?env [''/ext/tool.sh'', ''x''] =
     ([], runCommand \<lparr>Name = ''/ext/tool.sh'', Args = [''x''], Input = ''in''\<rparr>)"
    using resolver_precedence [OF demo_read_input, of ?c "''/ext/tool.sh''" "[''x'']" _ _ _
        "''/ext/tool.sh''" ?c] demo_plain[of ?c]
    by simp
  have 3: "RunE ?env [''https://example.org/s'', ''x''] =
     ([], runCommand \<lparr>Name = ''/tmp/sunbeam1/sunbeam-command'', Args = [''x''], Input = ''in''\<rparr>)"
    using resolver_precedence [OF demo_read_input, of ?c "''https://example.org/s''" "[''x'']"
        "''200 OK''" "''#!/bin/sh''" "''/tmp/sunbeam1''" "''/ext/tool.sh''" ?c,
        THEN conjunct2, THEN conjunct1] demo_remote[of ?c]
    by simp
  show ?thesis using 1 2 3 by simp
qed

lemma run_subcommand_found:
  assumes "distinct (map fst subs)" and "(name, c) \<in> set subs"
  shows "run_subcommand env sp subs name args input =
     runCommand \<lparr>Name = filepath_Join env (filepath_Dir env sp) (sub_Entrypoint c),
                 Args = drop 2 args, Input = input\<rparr>"
  using assms
proof (induction subs)
  case Nil
  then show ?case by simp
next
  case (Cons x xs)
  obtain n d where x: "x = (n, d)" by (cases x)
  show ?case
  proof (cases "name = n")
    case True
    then have "c = d" using Cons.prems x by (auto simp: image_iff)
    then show ?thesis using True x by simp
  next
    case False
    then show ?thesis using Cons x by auto
  qed
qed

lemma run_subcommand_missing:
  assumes "name \<notin> fst ` set subs"
  shows "run_subcommand env sp subs name args input =
     Return (Errorf (''subcommand not found: '' @ name))"
  using assms by (induction subs) auto

text \<open>
  C3. At the dispatcher step (a manifest with an empty entrypoint): with no argument left
  the resolver prints the name of every subcommand and returns \<open>ExitCodeError 1\<close>; with
  an argument that is the name of a subcommand it runs that subcommand's entrypoint with
  the arguments after the name and the input read from standard input; with an argument
  equal to no subcommand name it returns the error "subcommand not found", which is not
  an \<open>ExitCodeError\<close>.
\<close>

theorem dispatcher_step:
  assumes "read_input env = Inr input" and "url_Parse env origin \<noteq> Inr ''https''"
    and "resolve_scriptPath env origin = Inr sp"
    and "filepath_Base env sp = manifestName env"
    and "ParseCommand env (filepath_Dir env sp) = Inr command"
    and "Entrypoint command = []"
  shows "RunE env [origin] =
           ([PrintErrln ''No subcommand provided'', PrintErrln ''Subcommands:'']
              @ map (\<lambda>name. ''  - '' @ name @ [CHR 0x0A]) (map fst (SubCommands command)),
            Return (ExitCodeError 1))
       \<and> (distinct (map fst (SubCommands command)) \<and> (name, c) \<in> set (SubCommands command) \<longrightarrow>
            RunE env (origin # name # others) =
              ([], runCommand
                 \<lparr>Name = filepath_Join env (filepath_Dir env sp) (sub_Entrypoint c),
                  Args = others, Input = input\<rparr>))
       \<and> (name \<notin> fst ` set (SubCommands command) \<longrightarrow>
            RunE env (origin # name # others) =
              ([], Return (Errorf (''subcommand not found: '' @ name)))
            \<and> Errorf (''subcommand not found: '' @ name) \<noteq> ExitCodeError 1)"
proof -
  have run: "RunE env (origin # rest) = dispatch env sp command (origin # rest) input" for rest
    using RunE_local[OF assms(1,2,3), of rest] assms(4,5,6) by (simp add: run_path_def)
  have none: "RunE env [origin] =
           ([PrintErrln ''No subcommand provided'', PrintErrln ''Subcommands:'']
              @ map (\<lambda>name. ''  - '' @ name @ [CHR 0x0A]) (map fst (SubCommands command)),
            Return (ExitCodeError 1))"
    using run[of "[]"] by (simp add: dispatch_def case_prod_beta comp_def)
  have found: "RunE env (origin # name # others) =
      ([], runCommand \<lparr>Name = filepath_Join env (filepath_Dir env sp) (sub_Entrypoint c),
                       Args = others, Input = input\<rparr>)"
    if "distinct (map fst (SubCommands command))" "(name, c) \<in> set (SubCommands command)"
    using run[of "name # others"] run_subcommand_found[OF that, of env sp "origin # name # others" input]
    by (simp add: dispatch_def)
  have missing: "RunE env (origin # name # others) =
      ([], Return (Errorf (''subcommand not found: '' @ name)))"
    if "name \<notin> fst ` set (SubCommands command)"
    using run[of "name # others"] run_subcommand_missing[OF that, of env sp "origin # name # others" input]
    by (simp add: dispatch_def)
  show ?thesis
    using none found missing by simp
qed

text \<open>
  The dispatcher with no argument, with the subcommand "show", and with "Show", which
  matches no name.
\<close>

theorem dispatcher_step_witness:
  "RunE (demo_run_env \<lparr>Entrypoint = [], SubCommands = demo_subs\<rparr>) [''/ext''] =
     ([''No subcommand provided'' @ [CHR 0x0A], ''Subcommands:'' @ [CHR 0x0A],
       ''  - list'' @ [CHR 0x0A], ''  - show'' @ [CHR 0x0A]], Return (ExitCodeError 1))
   \<and> RunE (demo_run_env \<lparr>Entrypoint = [], SubCommands = demo_subs\<rparr>) [''/ext'', ''show'', ''x'', ''y''] =
     ([], runCommand \<lparr>Name = ''/ext/show.sh'', Args = [''x'', ''y''], Input = ''in''\<rparr>)
   \<and> RunE (demo_run_env \<lparr>Entrypoint = [], SubCommands = demo_subs\<rparr>) [''/ext'', ''Show'', ''x''] =
     ([], Return (Errorf ''subcommand not found: Show''))"
proof -
  let ?c = "\<lparr>Entrypoint = [], SubCommands = demo_subs\<rparr>"
  have e: "Entrypoint ?c = []" by simp
  show ?thesis
    using dispatcher_step [OF demo_read_input demo_dispatcher e, of "''show''"
        "\<lparr>sub_Entrypoint = ''show.sh''\<rparr>" "[''x'', ''y'']"]
      dispatcher_step [OF demo_read_input demo_dispatcher e, of "''Show''" _ "[''x'']"]
    by (simp add: demo_subs_def PrintErrln_def demo_entrypoint)
qed

end
